theory Spec2Isabelle
  imports Complex_Main
begin

section \<open>Fee setting of lndmanage: \<^verbatim>\<open>lndmanage/lib/fee_setting.py\<close>\<close>

text \<open>
  The module computes, for every channel of a node, a new fee policy from the channel's
  unbalancedness, its forwarding statistics and its current policy.

  Numbers. Python's \<^verbatim>\<open>float\<close> values are modelled as exact reals and Python's unbounded
  \<^verbatim>\<open>int\<close> values as \<^typ>\<open>int\<close>: every formula of the module is evaluated without rounding
  error, and \<^verbatim>\<open>round(x, 6)\<close> is the only rounding step (it is in the source).  The theorems
  below are statements about this exact arithmetic.

  Errors. A missing key of a dictionary raises \<^verbatim>\<open>KeyError\<close> and a division by zero raises
  \<^verbatim>\<open>ZeroDivisionError\<close>; both are values of \<open>py_error\<close> here and the functions that can
  raise return a sum.
\<close>

subsection \<open>Constants (lines 10 to 17)\<close>

definition FEE_LOCK_RATE :: real where
  "FEE_LOCK_RATE = 0.025000"

definition THRESHOLD_UB_OPEN :: real where
  "THRESHOLD_UB_OPEN = - 0.5"

definition THRESHOLD_UB_CLOSE :: real where
  "THRESHOLD_UB_CLOSE = 0.95"

subsection \<open>Data\<close>

datatype py_error = KeyError | ZeroDivisionError

text \<open>An entry of \<^verbatim>\<open>channels\<close>: the keys of \<^verbatim>\<open>channel_data\<close> that the module reads.\<close>

record channel =
  unbalancedness :: real
  capacity :: int
  channel_point :: string

text \<open>An entry of \<^verbatim>\<open>channels_forwarding_stats\<close>.\<close>

record forwarding_stats =
  flow_direction :: real
  fees_total :: real
  total_forwarding_in :: real
  total_forwarding_out :: real
  number_forwardings :: int
  number_forwardings_out :: int

text \<open>
  A fee policy, as read from \<^verbatim>\<open>self.channel_fee_policies\<close> (keys \<^verbatim>\<open>fee_rate\<close> and
  \<^verbatim>\<open>base_fee_msat\<close>) and as written to the result (keys \<^verbatim>\<open>base_fee_msat\<close>,
  \<^verbatim>\<open>fee_rate\<close> and \<^verbatim>\<open>cltv\<close>; the field \<open>policy_cltv\<close> is the key \<^verbatim>\<open>cltv\<close>).
\<close>

record fee_policy =
  base_fee_msat :: int
  fee_rate :: real
  policy_cltv :: int

text \<open>
  The attributes of a \<^verbatim>\<open>FeeSetter\<close> that \<^verbatim>\<open>new_fee_policy\<close> reads: the current
  policies, read when the object is made (line 31), and the arguments that
  \<^verbatim>\<open>set_fees\<close> has stored (lines 62 to 70) before it calls \<^verbatim>\<open>new_fee_policy\<close>.
\<close>

record fee_setter =
  channel_fee_policies :: "string \<rightharpoonup> fee_policy"
  time_interval_days :: real
  min_base_fee_msat :: int
  max_base_fee_msat :: int
  min_fee_rate :: real
  max_fee_rate :: real
  init :: bool
  cltv :: int

text \<open>
  The values of the line that \<^verbatim>\<open>logger.debug\<close> writes for a channel (lines 231 to 239),
  without the time stamp.
\<close>

record stats_line =
  sl_channel_id :: int
  sl_total_forwarding_in :: real
  sl_total_forwarding_out :: real
  sl_ub :: real
  sl_flow :: real
  sl_fees_sat :: real
  sl_capacity :: int
  sl_factor_demand :: real
  sl_factor_unbalancedness :: real
  sl_factor_flow :: real
  sl_weighted_change :: real
  sl_fee_rate :: real
  sl_fee_rate_new :: real
  sl_number_forwardings :: int
  sl_number_forwardings_out :: int
  sl_factor_base_fee :: real
  sl_base_fee_msat :: int
  sl_base_fee_msat_new :: int

subsection \<open>Python's built-in functions\<close>

text \<open>\<^verbatim>\<open>int(x)\<close> of a float truncates towards zero.\<close>

definition py_int :: "real \<Rightarrow> int" where
  "py_int x = (if 0 \<le> x then \<lfloor>x\<rfloor> else \<lceil>x\<rceil>)"

text \<open>Rounding to the nearest integer, a tie going to the even neighbour.\<close>

definition round_half_even :: "real \<Rightarrow> int" where
  "round_half_even x =
     (let f = \<lfloor>x\<rfloor>; d = x - of_int f
      in if d < 1 / 2 then f
         else if 1 / 2 < d then f + 1
         else if even f then f else f + 1)"

text \<open>\<^verbatim>\<open>round(x, ndigits)\<close>.\<close>

definition py_round :: "real \<Rightarrow> nat \<Rightarrow> real" where
  "py_round x ndigits = of_int (round_half_even (x * 10 ^ ndigits)) / 10 ^ ndigits"

subsection \<open>The factors (lines 249 to 344)\<close>

definition factor_unbalancedness :: "real \<Rightarrow> real" where
  "factor_unbalancedness ub =
     (let c_max = 0.5;
          rescale = 0.5;
          c = 1 + ub * rescale
      in if c > 1 then min c (1 + c_max) else max c (1 - c_max))"

definition factor_flow :: "real \<Rightarrow> real" where
  "factor_flow flow =
     (let c_max = 0.5;
          rescale = 0.5;
          c = 1 + flow * rescale
      in if c > 1 then min c (1 + c_max) else max c (1 - c_max))"

definition factor_demand_fee_rate :: "fee_setter \<Rightarrow> real \<Rightarrow> py_error + real" where
  "factor_demand_fee_rate self amount_out =
     (if time_interval_days self = 0 then Inl ZeroDivisionError
      else
        let rate = amount_out / time_interval_days self;
            c_min = 0.25;
            c_max = 1.00;
            rate_target = 500000 / 7;
            c = c_min * (rate / rate_target - 1) + 1
        in Inr (min c (1 + c_max)))"

definition factor_demand_base_fee :: "fee_setter \<Rightarrow> int \<Rightarrow> py_error + real" where
  "factor_demand_base_fee self num_fwd_out =
     (if time_interval_days self = 0 then Inl ZeroDivisionError
      else
        let c_min = 0.25;
            c_max = 1.00;
            num_fwd_target = 5 / 7;
            c = c_min * ((of_int num_fwd_out / time_interval_days self) / num_fwd_target - 1) + 1
        in Inr (min c (1 + c_max)))"

subsection \<open>The loop body of \<^verbatim>\<open>new_fee_policy\<close> (lines 106 to 245)\<close>

text \<open>
  Lines 107 to 124: the values \<^verbatim>\<open>flow\<close>, \<^verbatim>\<open>fees_sat\<close>, \<^verbatim>\<open>total_forwarding_in\<close>,
  \<^verbatim>\<open>total_forwarding_out\<close>, \<^verbatim>\<open>total_forwarding\<close>, \<^verbatim>\<open>number_forwardings\<close> and
  \<^verbatim>\<open>number_forwardings_out\<close> of a channel, in this order; all zero for a channel without
  an entry in \<^verbatim>\<open>channels_forwarding_stats\<close>.
\<close>

definition channel_stats_values ::
    "(int \<rightharpoonup> forwarding_stats) \<Rightarrow> int \<Rightarrow> real \<times> real \<times> real \<times> real \<times> real \<times> int \<times> int" where
  "channel_stats_values channels_forwarding_stats channel_id =
     (case channels_forwarding_stats channel_id of
        None \<Rightarrow> (0, 0, 0, 0, 0, 0, 0)
      | Some channel_stats \<Rightarrow>
          (flow_direction channel_stats,
           fees_total channel_stats / 1000,
           total_forwarding_in channel_stats,
           total_forwarding_out channel_stats,
           total_forwarding_in channel_stats + total_forwarding_out channel_stats,
           number_forwardings channel_stats,
           number_forwardings_out channel_stats))"

text \<open>Lines 146 to 163: the weights and the weighted change.\<close>

definition weighted_change :: "real \<Rightarrow> real \<Rightarrow> real \<Rightarrow> real \<Rightarrow> real" where
  "weighted_change factor_demand factor_ub factor_fl total_forwarding =
     (let wgt_demand = 1.3;
          wgt_ub = 1.0;
          wgt_flow = 0.6;
          wgt_flow = (if total_forwarding = 0 then 0 else wgt_flow)
      in (wgt_ub * factor_ub + wgt_flow * factor_fl + wgt_demand * factor_demand)
           / (wgt_ub + wgt_flow + wgt_demand))"

text \<open>
  Lines 173 to 209: the new fee rate, from the current fee rate \<open>fee_rate_cur\<close> (the
  source's \<^verbatim>\<open>fee_rate\<close>).  The variable \<open>r\<close> is the source's \<^verbatim>\<open>fee_rate_new\<close>, assigned
  four times in the steady-state branch: the rounded product, its clamp, the rules of the
  open mode and the rules of the locked mode.
\<close>

definition fee_rate_new :: "fee_setter \<Rightarrow> real \<Rightarrow> real \<Rightarrow> real \<Rightarrow> real \<Rightarrow> real" where
  "fee_rate_new self fee_rate_cur ub total_out weighted =
     (if init self then
        (if weighted < 1 then min_fee_rate self else max_fee_rate self / 2)
      else
        let r = py_round (fee_rate_cur * weighted) 6;
            r = min (max (min_fee_rate self) r) (max_fee_rate self);
            r = (if fee_rate_cur \<le> min_fee_rate self \<and> ub < THRESHOLD_UB_OPEN
                      \<and> total_out = 0 then 0
                 else if fee_rate_cur = 0 \<and> total_out > 0
                      \<and> ub > THRESHOLD_UB_OPEN then min_fee_rate self
                 else r);
            r = (if ub > THRESHOLD_UB_CLOSE \<and> total_out = 0 then FEE_LOCK_RATE
                 else if fee_rate_cur = FEE_LOCK_RATE \<and> ub < THRESHOLD_UB_CLOSE
                      then max_fee_rate self / 2
                 else r)
        in r)"

text \<open>
  Lines 217 to 224: the new base fee, from the current base fee \<open>base_fee_cur\<close> (the
  source's \<^verbatim>\<open>base_fee_msat\<close>).
\<close>

definition base_fee_msat_new :: "fee_setter \<Rightarrow> int \<Rightarrow> real \<Rightarrow> int" where
  "base_fee_msat_new self base_fee_cur factor_base_fee =
     (let b = of_int base_fee_cur * factor_base_fee
      in if init self then
           (if factor_base_fee < 1 then min_base_fee_msat self else max_base_fee_msat self)
         else py_int (max (of_int (min_base_fee_msat self)) b))"

text \<open>
  The body of the loop for one item of \<^verbatim>\<open>channels\<close>: the policy that is stored under the
  channel point, and the line that is logged.  The current policy is looked up (lines 129
  to 134) before the first factor is computed (line 150), so a missing channel point
  raises before a zero time interval does.
\<close>

definition channel_policy ::
    "fee_setter \<Rightarrow> (int \<rightharpoonup> forwarding_stats) \<Rightarrow> int \<Rightarrow> channel
       \<Rightarrow> py_error + (fee_policy \<times> stats_line)" where
  "channel_policy self channels_forwarding_stats channel_id channel_data =
     (case channel_stats_values channels_forwarding_stats channel_id of
        (flow, fees_sat, total_in, total_out, total_forwarding, num_fwd, num_fwd_out) \<Rightarrow>
     (let ub = unbalancedness channel_data;
         cap = capacity channel_data
     in (case channel_fee_policies self (channel_point channel_data) of
          None \<Rightarrow> Inl KeyError
        | Some current \<Rightarrow>
     (let fee_rate_cur = fee_rate current;
         base_fee_cur = base_fee_msat current
     in (case factor_demand_fee_rate self total_out of
          Inl e \<Rightarrow> Inl e
        | Inr factor_demand \<Rightarrow>
     (let factor_ub = factor_unbalancedness ub;
         factor_fl = factor_flow flow;
         weighted = weighted_change factor_demand factor_ub factor_fl total_forwarding;
         rate_new = fee_rate_new self fee_rate_cur ub total_out weighted
     in (case factor_demand_base_fee self num_fwd_out of
          Inl e \<Rightarrow> Inl e
        | Inr factor_base_fee \<Rightarrow>
     (let base_new = base_fee_msat_new self base_fee_cur factor_base_fee
     in Inr (\<lparr>base_fee_msat = base_new, fee_rate = rate_new, policy_cltv = cltv self\<rparr>,
             \<lparr>sl_channel_id = channel_id,
              sl_total_forwarding_in = total_in,
              sl_total_forwarding_out = total_out,
              sl_ub = ub,
              sl_flow = flow,
              sl_fees_sat = fees_sat,
              sl_capacity = cap,
              sl_factor_demand = factor_demand,
              sl_factor_unbalancedness = factor_ub,
              sl_factor_flow = factor_fl,
              sl_weighted_change = weighted,
              sl_fee_rate = fee_rate_cur,
              sl_fee_rate_new = rate_new,
              sl_number_forwardings = num_fwd,
              sl_number_forwardings_out = num_fwd_out,
              sl_factor_base_fee = factor_base_fee,
              sl_base_fee_msat = base_fee_cur,
              sl_base_fee_msat_new = base_new\<rparr>)))))))))"

subsection \<open>\<^verbatim>\<open>new_fee_policy\<close> (lines 89 to 247)\<close>

text \<open>
  The dictionary \<^verbatim>\<open>channels\<close> is the list of its items, in the order of the iteration.
  The loop carries the dictionary \<^verbatim>\<open>channel_fee_policies\<close> that it fills and the lines
  logged so far; an exception ends it.
\<close>

fun new_fee_policy_loop ::
    "fee_setter \<Rightarrow> (int \<rightharpoonup> forwarding_stats) \<Rightarrow> (int \<times> channel) list
       \<Rightarrow> (string \<rightharpoonup> fee_policy) \<times> stats_line list
       \<Rightarrow> py_error + ((string \<rightharpoonup> fee_policy) \<times> stats_line list)" where
  "new_fee_policy_loop self channels_forwarding_stats [] acc = Inr acc"
| "new_fee_policy_loop self channels_forwarding_stats ((channel_id, channel_data) # rest)
       (policies, logged) =
     (case channel_policy self channels_forwarding_stats channel_id channel_data of
        Inl e \<Rightarrow> Inl e
      | Inr (policy, line) \<Rightarrow>
          new_fee_policy_loop self channels_forwarding_stats rest
            (policies(channel_point channel_data \<mapsto> policy), logged @ [line]))"

definition new_fee_policy ::
    "fee_setter \<Rightarrow> (int \<times> channel) list \<Rightarrow> (int \<rightharpoonup> forwarding_stats)
       \<Rightarrow> py_error + ((string \<rightharpoonup> fee_policy) \<times> stats_line list)" where
  "new_fee_policy self channels channels_forwarding_stats =
     new_fee_policy_loop self channels_forwarding_stats channels (Map.empty, [])"

subsection \<open>Reading a result\<close>

text \<open>The fee rate stored under a channel point in the dictionary that is returned.\<close>

definition fee_rate_written ::
    "py_error + ((string \<rightharpoonup> fee_policy) \<times> stats_line list) \<Rightarrow> string \<Rightarrow> real option" where
  "fee_rate_written result cp =
     (case result of
        Inl e \<Rightarrow> None
      | Inr (policies, logged) \<Rightarrow> map_option fee_rate (policies cp))"

subsection \<open>Example runs\<close>

text \<open>
  A node with three channels and the default arguments of \<^verbatim>\<open>set_fees\<close>.  Channel 1 is
  nearly all local balance and has no forwardings, channel 2 has a fee rate of zero and no
  forwardings, channel 3 has forwarded in both directions during the week.
\<close>

definition example_setter :: fee_setter where
  "example_setter =
     \<lparr>channel_fee_policies =
        [''cp0'' \<mapsto> \<lparr>base_fee_msat = 100, fee_rate = 0.00005, policy_cltv = 40\<rparr>,
         ''cp1'' \<mapsto> \<lparr>base_fee_msat = 30, fee_rate = 0, policy_cltv = 40\<rparr>,
         ''cp2'' \<mapsto> \<lparr>base_fee_msat = 1000, fee_rate = 0.00005, policy_cltv = 40\<rparr>],
      time_interval_days = 7,
      min_base_fee_msat = 20,
      max_base_fee_msat = 400,
      min_fee_rate = 0.000004,
      max_fee_rate = 0.0001,
      init = False,
      cltv = 14\<rparr>"

definition example_channel1 :: channel where
  "example_channel1 = \<lparr>unbalancedness = 0.98, capacity = 1000000, channel_point = ''cp0''\<rparr>"

definition example_channel2 :: channel where
  "example_channel2 = \<lparr>unbalancedness = 0.3, capacity = 2000000, channel_point = ''cp1''\<rparr>"

definition example_channel3 :: channel where
  "example_channel3 = \<lparr>unbalancedness = - 0.2, capacity = 500000, channel_point = ''cp2''\<rparr>"

definition example_channels :: "(int \<times> channel) list" where
  "example_channels = [(1, example_channel1), (2, example_channel2), (3, example_channel3)]"

definition example_stats :: "int \<rightharpoonup> forwarding_stats" where
  "example_stats =
     [3 \<mapsto> \<lparr>flow_direction = 0.25, fees_total = 1500, total_forwarding_in = 30000,
             total_forwarding_out = 50000, number_forwardings = 5,
             number_forwardings_out = 3\<rparr>]"

text \<open>The same run with other capacities, fee totals and numbers of forwardings.\<close>

definition other_channels :: "(int \<times> channel) list" where
  "other_channels =
     [(1, example_channel1\<lparr>capacity := 16000000\<rparr>),
      (2, example_channel2\<lparr>capacity := 20000\<rparr>),
      (3, example_channel3\<lparr>capacity := 750000\<rparr>)]"

definition other_stats :: "int \<rightharpoonup> forwarding_stats" where
  "other_stats =
     [3 \<mapsto> \<lparr>flow_direction = 0.25, fees_total = 99000, total_forwarding_in = 30000,
             total_forwarding_out = 50000, number_forwardings = 12,
             number_forwardings_out = 3\<rparr>]"

text \<open>
  An initial run in which the minimal fee rate is above half of the maximal one, for a
  single channel without forwardings.
\<close>

definition narrow_setter :: fee_setter where
  "narrow_setter =
     \<lparr>channel_fee_policies =
        [''cp0'' \<mapsto> \<lparr>base_fee_msat = 1000, fee_rate = 0.000001, policy_cltv = 40\<rparr>],
      time_interval_days = 7,
      min_base_fee_msat = 20,
      max_base_fee_msat = 400,
      min_fee_rate = 0.00008,
      max_fee_rate = 0.0001,
      init = True,
      cltv = 14\<rparr>"

definition narrow_channels :: "(int \<times> channel) list" where
  "narrow_channels = [(1, \<lparr>unbalancedness = 1, capacity = 1000000, channel_point = ''cp0''\<rparr>)]"

definition no_forwardings :: "int \<rightharpoonup> forwarding_stats" where
  "no_forwardings = Map.empty"

section \<open>Auxiliary facts\<close>

subsection \<open>The values of a channel and the factors\<close>

lemma channel_stats_values_total:
  "channel_stats_values stats channel_id = (flow, fees_sat, total_in, total_out, total_fwd, n, n_out)
     \<Longrightarrow> total_fwd = total_in + total_out"
  by (auto simp: channel_stats_values_def split: option.splits)

lemma factor_demand_fee_rate_defined:
  assumes "time_interval_days self \<noteq> 0"
  obtains factor_demand where "factor_demand_fee_rate self amount_out = Inr factor_demand"
  using assms by (simp add: factor_demand_fee_rate_def Let_def)

lemma factor_demand_base_fee_defined:
  assumes "time_interval_days self \<noteq> 0"
  obtains factor_base_fee where "factor_demand_base_fee self num_fwd_out = Inr factor_base_fee"
  using assms by (simp add: factor_demand_base_fee_def Let_def)

text \<open>
  Truncation of the larger of a nonnegative integer and a real is the larger of the integer
  and the floor of the real.
\<close>

lemma py_int_max:
  fixes m :: int
  assumes "0 \<le> m"
  shows "py_int (max (of_int m) x) = max m \<lfloor>x\<rfloor>"
proof (cases "x \<le> of_int m")
  case True
  then have "\<lfloor>x\<rfloor> \<le> m" by (simp add: floor_le_iff)
  with True assms show ?thesis by (simp add: py_int_def max_def)
next
  case False
  then have "of_int m < x" by simp
  then have "m \<le> \<lfloor>x\<rfloor>" by (simp add: le_floor_iff)
  with False assms show ?thesis by (auto simp add: py_int_def max_def)
qed

subsection \<open>The loop body\<close>

lemma channel_policy_fee_rate:
  assumes "channel_policy self stats channel_id channel_data = Inr (policy, line)"
  shows "\<exists>current flow fees_sat total_in total_out total_fwd n n_out w.
           channel_fee_policies self (channel_point channel_data) = Some current
         \<and> channel_stats_values stats channel_id = (flow, fees_sat, total_in, total_out, total_fwd, n, n_out)
         \<and> fee_rate policy = fee_rate_new self (fee_rate current) (unbalancedness channel_data) total_out w"
  using assms
  by (auto simp add: channel_policy_def Let_def split: prod.splits option.splits sum.splits)

lemma fee_rate_new_cases:
  assumes "min_fee_rate self \<le> max_fee_rate self"
  shows "(min_fee_rate self \<le> fee_rate_new self f ub t w \<and> fee_rate_new self f ub t w \<le> max_fee_rate self)
       \<or> fee_rate_new self f ub t w = 0
       \<or> fee_rate_new self f ub t w = FEE_LOCK_RATE
       \<or> fee_rate_new self f ub t w = max_fee_rate self / 2"
  using assms by (auto simp add: fee_rate_new_def Let_def min_def max_def)

text \<open>The policy of a channel, when nothing raises.\<close>

lemma channel_policy_value:
  assumes "channel_stats_values stats channel_id = (flow, fees_sat, total_in, total_out, total_fwd, n, n_out)"
    and "channel_fee_policies self (channel_point channel_data) = Some current"
    and "factor_demand_fee_rate self total_out = Inr factor_demand"
    and "factor_demand_base_fee self n_out = Inr factor_base_fee"
  shows "\<exists>line. channel_policy self stats channel_id channel_data =
           Inr (\<lparr>base_fee_msat = base_fee_msat_new self (base_fee_msat current) factor_base_fee,
                 fee_rate = fee_rate_new self (fee_rate current) (unbalancedness channel_data) total_out
                   (weighted_change factor_demand (factor_unbalancedness (unbalancedness channel_data))
                      (factor_flow flow) total_fwd),
                 policy_cltv = cltv self\<rparr>, line)"
  using assms by (simp add: channel_policy_def Let_def)

lemma channel_policy_total:
  assumes "time_interval_days self \<noteq> 0"
    and "channel_fee_policies self (channel_point channel_data) = Some current"
  shows "\<exists>policy line. channel_policy self stats channel_id channel_data = Inr (policy, line)
           \<and> policy_cltv policy = cltv self"
  using assms
  by (simp add: channel_policy_def factor_demand_fee_rate_def factor_demand_base_fee_def
        Let_def split: prod.splits)

lemma channel_policy_independent:
  assumes "unbalancedness c = unbalancedness c'" and "channel_point c = channel_point c'"
    and "rel_option (\<lambda>s s'. flow_direction s = flow_direction s'
            \<and> total_forwarding_in s = total_forwarding_in s'
            \<and> total_forwarding_out s = total_forwarding_out s'
            \<and> number_forwardings_out s = number_forwardings_out s') (stats i) (stats' i)"
  shows "map_sum id fst (channel_policy self stats i c) = map_sum id fst (channel_policy self stats' i c')"
proof (cases "stats i")
  case None
  with assms(3) have "stats' i = None" by (cases "stats' i") simp_all
  with None assms(1,2) show ?thesis
    by (simp add: channel_policy_def channel_stats_values_def Let_def
          split: option.splits sum.splits)
next
  case (Some s)
  with assms(3) obtain s' where s': "stats' i = Some s'" by (cases "stats' i") simp_all
  with Some assms show ?thesis
    by (simp add: channel_policy_def channel_stats_values_def Let_def
          split: option.splits sum.splits)
qed

subsection \<open>The loop\<close>

text \<open>Every entry of the result was in the dictionary before or is the policy of a channel.\<close>

lemma loop_entry:
  "new_fee_policy_loop self stats chans (pols0, log0) = Inr (pols, logged) \<Longrightarrow> pols cp = Some p
     \<Longrightarrow> pols0 cp = Some p
        \<or> (\<exists>channel_id channel_data line. (channel_id, channel_data) \<in> set chans
              \<and> channel_point channel_data = cp
              \<and> channel_policy self stats channel_id channel_data = Inr (p, line))"
proof (induction chans arbitrary: pols0 log0)
  case Nil
  then show ?case by simp
next
  case (Cons a chans)
  obtain channel_id channel_data where a: "a = (channel_id, channel_data)" by (cases a)
  from Cons.prems(1) a obtain policy line where
    body: "channel_policy self stats channel_id channel_data = Inr (policy, line)"
    and rest: "new_fee_policy_loop self stats chans
                 (pols0(channel_point channel_data \<mapsto> policy), log0 @ [line]) = Inr (pols, logged)"
    by (auto split: sum.splits)
  from Cons.IH [OF rest Cons.prems(2)] show ?case
  proof
    assume "(pols0(channel_point channel_data \<mapsto> policy)) cp = Some p"
    then show ?thesis using body a by (auto split: if_splits)
  next
    assume "\<exists>channel_id channel_data line. (channel_id, channel_data) \<in> set chans
              \<and> channel_point channel_data = cp
              \<and> channel_policy self stats channel_id channel_data = Inr (p, line)"
    then show ?thesis by auto
  qed
qed

text \<open>
  With a nonzero time interval and a current policy for every channel the loop does not
  raise, and it adds the channel points to the keys.
\<close>

lemma loop_total:
  assumes "time_interval_days self \<noteq> 0"
    and "\<forall>(channel_id, channel_data) \<in> set chans.
           channel_point channel_data \<in> dom (channel_fee_policies self)"
  shows "\<exists>pols logged. new_fee_policy_loop self stats chans (pols0, log0) = Inr (pols, logged)
           \<and> dom pols = dom pols0 \<union> (channel_point \<circ> snd) ` set chans
           \<and> length logged = length log0 + length chans
           \<and> (\<forall>cp p. pols cp = Some p \<longrightarrow> pols0 cp = Some p \<or> policy_cltv p = cltv self)"
  using assms(2)
proof (induction chans arbitrary: pols0 log0)
  case Nil
  then show ?case by simp
next
  case (Cons a chans)
  obtain channel_id channel_data where a: "a = (channel_id, channel_data)" by (cases a)
  from Cons.prems a obtain current where
    "channel_fee_policies self (channel_point channel_data) = Some current" by auto
  from channel_policy_total [OF assms(1) this] obtain policy line where
    body: "channel_policy self stats channel_id channel_data = Inr (policy, line)"
    and cl: "policy_cltv policy = cltv self" by blast
  from Cons.prems have "\<forall>(channel_id, channel_data) \<in> set chans.
           channel_point channel_data \<in> dom (channel_fee_policies self)" by simp
  from Cons.IH [OF this, of "pols0(channel_point channel_data \<mapsto> policy)" "log0 @ [line]"]
  obtain pols logged where
    r: "new_fee_policy_loop self stats chans
          (pols0(channel_point channel_data \<mapsto> policy), log0 @ [line]) = Inr (pols, logged)"
    and d: "dom pols = dom (pols0(channel_point channel_data \<mapsto> policy)) \<union> (channel_point \<circ> snd) ` set chans"
    and l: "length logged = length (log0 @ [line]) + length chans"
    and c: "\<forall>cp p. pols cp = Some p \<longrightarrow>
              (pols0(channel_point channel_data \<mapsto> policy)) cp = Some p \<or> policy_cltv p = cltv self"
    by blast
  have "new_fee_policy_loop self stats (a # chans) (pols0, log0) = Inr (pols, logged)"
    using a body r by simp
  moreover have "dom pols = dom pols0 \<union> (channel_point \<circ> snd) ` set (a # chans)"
    using d a by auto
  moreover have "length logged = length log0 + length (a # chans)"
    using l by simp
  moreover have "\<forall>cp p. pols cp = Some p \<longrightarrow> pols0 cp = Some p \<or> policy_cltv p = cltv self"
    using c cl by (auto split: if_splits)
  ultimately show ?case by blast
qed

text \<open>The dictionary that the loop returns does not depend on the values that are only logged.\<close>

lemma loop_independent:
  assumes "list_all2 (\<lambda>(i, c) (i', c'). i = i' \<and> unbalancedness c = unbalancedness c'
              \<and> channel_point c = channel_point c') chans chans'"
    and "\<forall>i. rel_option (\<lambda>s s'. flow_direction s = flow_direction s'
            \<and> total_forwarding_in s = total_forwarding_in s'
            \<and> total_forwarding_out s = total_forwarding_out s'
            \<and> number_forwardings_out s = number_forwardings_out s') (stats i) (stats' i)"
  shows "map_sum id fst (new_fee_policy_loop self stats chans (pols, logged))
       = map_sum id fst (new_fee_policy_loop self stats' chans' (pols, logged'))"
  using assms(1)
proof (induction chans chans' arbitrary: pols logged logged' rule: list_all2_induct)
  case Nil
  then show ?case by simp
next
  case (Cons a chans a' chans')
  obtain i c where a: "a = (i, c)" by (cases a)
  obtain i' c' where a': "a' = (i', c')" by (cases a')
  from Cons.hyps(1) a a' have e: "i' = i" "unbalancedness c = unbalancedness c'"
    "channel_point c = channel_point c'" by auto
  from assms(2) have "rel_option (\<lambda>s s'. flow_direction s = flow_direction s'
            \<and> total_forwarding_in s = total_forwarding_in s'
            \<and> total_forwarding_out s = total_forwarding_out s'
            \<and> number_forwardings_out s = number_forwardings_out s') (stats i) (stats' i)" by blast
  from channel_policy_independent [of c c' stats i stats' self, OF e(2,3) this]
  have b: "map_sum id fst (channel_policy self stats i c) = map_sum id fst (channel_policy self stats' i c')" .
  show ?case
  proof (cases "channel_policy self stats i c")
    case (Inl err)
    with b have "channel_policy self stats' i c' = Inl err"
      by (cases "channel_policy self stats' i c'") simp_all
    with Inl a a' e show ?thesis by simp
  next
    case (Inr r)
    obtain p l where r: "r = (p, l)" by (cases r)
    from b Inr r obtain l' where l': "channel_policy self stats' i c' = Inr (p, l')"
      by (cases "channel_policy self stats' i c'") auto
    have "map_sum id fst (new_fee_policy_loop self stats (a # chans) (pols, logged))
        = map_sum id fst (new_fee_policy_loop self stats chans
            (pols(channel_point c \<mapsto> p), logged @ [l]))"
      using Inr r a by simp
    also have "\<dots> = map_sum id fst (new_fee_policy_loop self stats' chans'
            (pols(channel_point c \<mapsto> p), logged' @ [l']))"
      by (rule Cons.IH)
    also have "\<dots> = map_sum id fst (new_fee_policy_loop self stats' (a' # chans') (pols, logged'))"
      using l' a' e by simp
    finally show ?thesis .
  qed
qed

section \<open>Properties of the fee setting\<close>

subsection \<open>The fee rates that are written\<close>

text \<open>
  Claim C1, as amended.  In a run with \<open>min_fee_rate \<le> max_fee_rate\<close>, every fee rate in
  the dictionary that \<^verbatim>\<open>new_fee_policy\<close> returns lies in \<open>[min_fee_rate, max_fee_rate]\<close>, or
  is exactly 0 (open mode), exactly \<open>FEE_LOCK_RATE\<close> (locked mode) or exactly
  \<open>max_fee_rate / 2\<close> (an initial run with a weighted change of at least 1, or a
  channel that leaves the locked mode).  Half of the maximal fee rate is inside the band
  as soon as \<open>min_fee_rate \<le> max_fee_rate / 2\<close> and \<open>0 \<le> max_fee_rate\<close>; then 0 and
  \<open>FEE_LOCK_RATE\<close> are the only values outside the band.
\<close>

theorem new_fee_policy_fee_rate_values:
  assumes "min_fee_rate self \<le> max_fee_rate self"
    and "fee_rate_written (new_fee_policy self channels stats) cp = Some r"
  shows "((min_fee_rate self \<le> r \<and> r \<le> max_fee_rate self)
          \<or> r = 0 \<or> r = FEE_LOCK_RATE \<or> r = max_fee_rate self / 2)
       \<and> (min_fee_rate self \<le> max_fee_rate self / 2 \<and> 0 \<le> max_fee_rate self \<longrightarrow>
            (min_fee_rate self \<le> r \<and> r \<le> max_fee_rate self)
            \<or> r = 0 \<or> r = FEE_LOCK_RATE)"
proof -
  from assms(2) obtain policies logged policy where
    res: "new_fee_policy_loop self stats channels (Map.empty, []) = Inr (policies, logged)"
    and entry: "policies cp = Some policy" and r: "r = fee_rate policy"
    by (auto simp add: fee_rate_written_def new_fee_policy_def split: sum.splits)
  from loop_entry [OF res entry]
  obtain channel_id channel_data line where
    "channel_policy self stats channel_id channel_data = Inr (policy, line)"
    by auto
  from channel_policy_fee_rate [OF this] obtain f ub t w where
    "fee_rate policy = fee_rate_new self f ub t w" by blast
  with fee_rate_new_cases [OF assms(1), of f ub t w] r show ?thesis
    by auto
qed

theorem new_fee_policy_fee_rate_values_witness:
  "min_fee_rate example_setter \<le> max_fee_rate example_setter
   \<and> fee_rate_written (new_fee_policy example_setter [(3, example_channel3)] example_stats) ''cp2''
       = Some 0.000045
   \<and> min_fee_rate example_setter \<le> 0.000045 \<and> 0.000045 \<le> max_fee_rate example_setter"
proof -
  let ?cur = "\<lparr>base_fee_msat = 1000, fee_rate = 0.00005, policy_cltv = 40\<rparr>"
  have h1: "min_fee_rate example_setter \<le> max_fee_rate example_setter"
    by (simp add: example_setter_def)
  have sv: "channel_stats_values example_stats 3 = (0.25, 1.5, 30000, 50000, 80000, 5, 3)"
    by (simp add: channel_stats_values_def example_stats_def)
  have cur: "channel_fee_policies example_setter (channel_point example_channel3) = Some ?cur"
    by (simp add: example_setter_def example_channel3_def)
  have fd: "factor_demand_fee_rate example_setter 50000 = Inr 0.775"
    by (simp add: factor_demand_fee_rate_def example_setter_def)
  have fb: "factor_demand_base_fee example_setter 3 = Inr 0.9"
    by (simp add: factor_demand_base_fee_def example_setter_def)
  from channel_policy_value [OF sv cur fd fb] obtain line where
    "channel_policy example_setter example_stats 3 example_channel3 =
       Inr (\<lparr>base_fee_msat = base_fee_msat_new example_setter (base_fee_msat ?cur) 0.9,
             fee_rate = fee_rate_new example_setter (fee_rate ?cur)
               (unbalancedness example_channel3) 50000
               (weighted_change 0.775 (factor_unbalancedness (unbalancedness example_channel3))
                  (factor_flow 0.25) 80000),
             policy_cltv = cltv example_setter\<rparr>, line)"
    by blast
  then have "fee_rate_written (new_fee_policy example_setter [(3, example_channel3)] example_stats)
               (channel_point example_channel3)
      = Some (fee_rate_new example_setter (fee_rate ?cur)
               (unbalancedness example_channel3) 50000
               (weighted_change 0.775 (factor_unbalancedness (unbalancedness example_channel3))
                  (factor_flow 0.25) 80000))"
    by (simp add: fee_rate_written_def new_fee_policy_def)
  then have h2: "fee_rate_written
      (new_fee_policy example_setter [(3, example_channel3)] example_stats) ''cp2'' = Some 0.000045"
    by (simp add: fee_rate_new_def weighted_change_def factor_unbalancedness_def factor_flow_def
          example_setter_def example_channel3_def py_round_def round_half_even_def
          THRESHOLD_UB_OPEN_def THRESHOLD_UB_CLOSE_def FEE_LOCK_RATE_def)
  from new_fee_policy_fee_rate_values [OF h1 h2] h1 h2 show ?thesis
    by (simp add: example_setter_def FEE_LOCK_RATE_def)
qed

text \<open>
  Claim C1 as it is stated fails: in the initial run \<open>narrow_setter\<close> the band is
  \<open>[0.00008, 0.0001]\<close>, the weighted change of the channel is above 1, and the fee rate
  written is \<open>max_fee_rate / 2 = 0.00005\<close>, which is below the band and is neither 0 nor
  \<open>FEE_LOCK_RATE\<close>.
\<close>

theorem new_fee_policy_fee_rate_outside_band:
  "min_fee_rate narrow_setter \<le> max_fee_rate narrow_setter
   \<and> fee_rate_written (new_fee_policy narrow_setter narrow_channels no_forwardings) ''cp0''
       = Some 0.00005
   \<and> \<not> (min_fee_rate narrow_setter \<le> 0.00005)
   \<and> (0.00005 :: real) \<noteq> 0
   \<and> 0.00005 \<noteq> FEE_LOCK_RATE"
proof -
  let ?c = "\<lparr>unbalancedness = 1, capacity = 1000000, channel_point = ''cp0''\<rparr>"
  let ?cur = "\<lparr>base_fee_msat = 1000, fee_rate = 0.000001, policy_cltv = 40\<rparr>"
  have sv: "channel_stats_values no_forwardings 1 = (0, 0, 0, 0, 0, 0, 0)"
    by (simp add: channel_stats_values_def no_forwardings_def)
  have cur: "channel_fee_policies narrow_setter (channel_point ?c) = Some ?cur"
    by (simp add: narrow_setter_def)
  have fd: "factor_demand_fee_rate narrow_setter 0 = Inr 0.75"
    by (simp add: factor_demand_fee_rate_def narrow_setter_def)
  have fb: "factor_demand_base_fee narrow_setter 0 = Inr 0.75"
    by (simp add: factor_demand_base_fee_def narrow_setter_def)
  from channel_policy_value [OF sv cur fd fb] obtain line where
    "channel_policy narrow_setter no_forwardings 1 ?c =
       Inr (\<lparr>base_fee_msat = base_fee_msat_new narrow_setter (base_fee_msat ?cur) 0.75,
             fee_rate = fee_rate_new narrow_setter (fee_rate ?cur) (unbalancedness ?c) 0
               (weighted_change 0.75 (factor_unbalancedness (unbalancedness ?c)) (factor_flow 0) 0),
             policy_cltv = cltv narrow_setter\<rparr>, line)"
    by blast
  then have "fee_rate_written (new_fee_policy narrow_setter narrow_channels no_forwardings) ''cp0''
      = Some (fee_rate_new narrow_setter (fee_rate ?cur) (unbalancedness ?c) 0
               (weighted_change 0.75 (factor_unbalancedness (unbalancedness ?c)) (factor_flow 0) 0))"
    by (simp add: fee_rate_written_def new_fee_policy_def narrow_channels_def)
  then show ?thesis
    by (simp add: fee_rate_new_def weighted_change_def factor_unbalancedness_def factor_flow_def
          narrow_setter_def FEE_LOCK_RATE_def)
qed

subsection \<open>The steady-state fee rate\<close>

text \<open>
  Claim C2.  In a run that is not an initial one, for a channel for which none of the four
  conditions of the threshold modes holds, the new fee rate is the current fee rate times
  the weighted change, rounded to 6 decimal places and then clamped by
  \<open>min (max min_fee_rate _) max_fee_rate\<close>; it lies in \<open>[min_fee_rate, max_fee_rate]\<close>
  whenever \<open>min_fee_rate \<le> max_fee_rate\<close>.  The run is assumed not to raise: the time
  interval is not zero and the channel point has a current policy.
\<close>

theorem steady_state_fee_rate_clamped:
  assumes "\<not> init self" and "time_interval_days self \<noteq> 0"
    and "channel_fee_policies self (channel_point channel_data) = Some current"
    and "channel_stats_values stats channel_id
           = (flow, fees_sat, total_in, total_out, total_fwd, n, n_out)"
    and "\<not> (fee_rate current \<le> min_fee_rate self
             \<and> unbalancedness channel_data < THRESHOLD_UB_OPEN \<and> total_out = 0)"
    and "\<not> (fee_rate current = 0 \<and> total_out > 0
             \<and> unbalancedness channel_data > THRESHOLD_UB_OPEN)"
    and "\<not> (unbalancedness channel_data > THRESHOLD_UB_CLOSE \<and> total_out = 0)"
    and "\<not> (fee_rate current = FEE_LOCK_RATE
             \<and> unbalancedness channel_data < THRESHOLD_UB_CLOSE)"
  shows "\<exists>policy line factor_demand.
           channel_policy self stats channel_id channel_data = Inr (policy, line)
         \<and> factor_demand_fee_rate self total_out = Inr factor_demand
         \<and> fee_rate policy =
             min (max (min_fee_rate self)
                   (py_round (fee_rate current
                      * weighted_change factor_demand
                          (factor_unbalancedness (unbalancedness channel_data))
                          (factor_flow flow) (total_in + total_out)) 6))
                 (max_fee_rate self)
         \<and> (min_fee_rate self \<le> max_fee_rate self \<longrightarrow>
               min_fee_rate self \<le> fee_rate policy \<and> fee_rate policy \<le> max_fee_rate self)"
proof -
  have t: "total_fwd = total_in + total_out"
    using assms(4) by (rule channel_stats_values_total)
  obtain fd where fd: "factor_demand_fee_rate self total_out = Inr fd"
    using assms(2) by (rule factor_demand_fee_rate_defined)
  obtain fb where fb: "factor_demand_base_fee self n_out = Inr fb"
    using assms(2) by (rule factor_demand_base_fee_defined)
  show ?thesis
    using assms(1,3,4,5,6,7,8) t fd fb
    by (auto simp add: channel_policy_def fee_rate_new_def Let_def)
qed

theorem steady_state_fee_rate_clamped_witness:
  "\<not> init example_setter \<and> time_interval_days example_setter \<noteq> 0
   \<and> min_fee_rate example_setter \<le> max_fee_rate example_setter
   \<and> (\<exists>policy line. channel_policy example_setter example_stats 3 example_channel3
                       = Inr (policy, line)
        \<and> min_fee_rate example_setter \<le> fee_rate policy
        \<and> fee_rate policy \<le> max_fee_rate example_setter)"
proof -
  let ?cur = "\<lparr>base_fee_msat = 1000, fee_rate = 0.00005, policy_cltv = 40\<rparr>"
  have h1: "\<not> init example_setter" and h2: "time_interval_days example_setter \<noteq> 0"
    and b: "min_fee_rate example_setter \<le> max_fee_rate example_setter"
    by (simp_all add: example_setter_def)
  have h3: "channel_fee_policies example_setter (channel_point example_channel3) = Some ?cur"
    by (simp add: example_setter_def example_channel3_def)
  have h4: "channel_stats_values example_stats 3 = (0.25, 1.5, 30000, 50000, 80000, 5, 3)"
    by (simp add: channel_stats_values_def example_stats_def)
  have h5: "\<not> (fee_rate ?cur \<le> min_fee_rate example_setter
        \<and> unbalancedness example_channel3 < THRESHOLD_UB_OPEN \<and> (50000 :: real) = 0)"
    and h6: "\<not> (fee_rate ?cur = 0 \<and> (50000 :: real) > 0
        \<and> unbalancedness example_channel3 > THRESHOLD_UB_OPEN)"
    and h7: "\<not> (unbalancedness example_channel3 > THRESHOLD_UB_CLOSE \<and> (50000 :: real) = 0)"
    and h8: "\<not> (fee_rate ?cur = FEE_LOCK_RATE
        \<and> unbalancedness example_channel3 < THRESHOLD_UB_CLOSE)"
    by (simp_all add: FEE_LOCK_RATE_def)
  from steady_state_fee_rate_clamped [OF h1 h2 h3 h4 h5 h6 h7 h8] b
  have "\<exists>policy line. channel_policy example_setter example_stats 3 example_channel3
                       = Inr (policy, line)
        \<and> min_fee_rate example_setter \<le> fee_rate policy
        \<and> fee_rate policy \<le> max_fee_rate example_setter"
    by blast
  with h1 h2 b show ?thesis by blast
qed

subsection \<open>The weighted change\<close>

text \<open>
  Claim C3.  The weighted change of a channel, which is logged and from which the new fee
  rate is computed, is
  \<open>(wgt_ub * factor_ub + wgt_flow * factor_flow + wgt_demand * factor_demand)
     / (wgt_ub + wgt_flow + wgt_demand)\<close>
  with \<open>wgt_demand = 1.3\<close>, \<open>wgt_ub = 1.0\<close> and \<open>wgt_flow = 0.6\<close>, except that \<open>wgt_flow\<close> is
  0 in the numerator and in the denominator when
  \<open>total_forwarding_in + total_forwarding_out = 0\<close>; the value then does not depend on
  the flow.  The run is assumed not to raise.
\<close>

theorem weighted_change_weights:
  assumes "time_interval_days self \<noteq> 0"
    and "channel_fee_policies self (channel_point channel_data) = Some current"
    and "channel_stats_values stats channel_id
           = (flow, fees_sat, total_in, total_out, total_fwd, n, n_out)"
  shows "\<exists>policy line factor_demand.
           channel_policy self stats channel_id channel_data = Inr (policy, line)
         \<and> factor_demand_fee_rate self total_out = Inr factor_demand
         \<and> sl_weighted_change line =
             (if total_in + total_out = 0
              then (1.0 * factor_unbalancedness (unbalancedness channel_data)
                      + 0 * factor_flow flow + 1.3 * factor_demand) / (1.0 + 0 + 1.3)
              else (1.0 * factor_unbalancedness (unbalancedness channel_data)
                      + 0.6 * factor_flow flow + 1.3 * factor_demand) / (1.0 + 0.6 + 1.3))
         \<and> (total_in + total_out = 0 \<longrightarrow>
               sl_weighted_change line
                 = (factor_unbalancedness (unbalancedness channel_data) + 1.3 * factor_demand)
                     / 2.3)
         \<and> fee_rate policy
             = fee_rate_new self (fee_rate current) (unbalancedness channel_data) total_out
                 (sl_weighted_change line)"
proof -
  have t: "total_fwd = total_in + total_out"
    using assms(3) by (rule channel_stats_values_total)
  obtain fd where fd: "factor_demand_fee_rate self total_out = Inr fd"
    using assms(1) by (rule factor_demand_fee_rate_defined)
  obtain fb where fb: "factor_demand_base_fee self n_out = Inr fb"
    using assms(1) by (rule factor_demand_base_fee_defined)
  show ?thesis
    using assms(2,3) t fd fb
    by (simp add: channel_policy_def weighted_change_def Let_def)
qed

theorem weighted_change_weights_witness:
  "time_interval_days example_setter \<noteq> 0
   \<and> (\<exists>policy line. channel_policy example_setter example_stats 3 example_channel3
                       = Inr (policy, line)
        \<and> sl_weighted_change line = 1033 / 1160)"
proof -
  let ?cur = "\<lparr>base_fee_msat = 1000, fee_rate = 0.00005, policy_cltv = 40\<rparr>"
  have h1: "time_interval_days example_setter \<noteq> 0"
    by (simp add: example_setter_def)
  have h2: "channel_fee_policies example_setter (channel_point example_channel3) = Some ?cur"
    by (simp add: example_setter_def example_channel3_def)
  have h3: "channel_stats_values example_stats 3 = (0.25, 1.5, 30000, 50000, 80000, 5, 3)"
    by (simp add: channel_stats_values_def example_stats_def)
  have fd: "factor_demand_fee_rate example_setter 50000 = Inr 0.775"
    by (simp add: factor_demand_fee_rate_def example_setter_def)
  from weighted_change_weights [OF h1 h2 h3] obtain policy line where
    p: "channel_policy example_setter example_stats 3 example_channel3 = Inr (policy, line)"
    and w: "sl_weighted_change line =
             (if (30000 :: real) + 50000 = 0
              then (1.0 * factor_unbalancedness (unbalancedness example_channel3)
                      + 0 * factor_flow 0.25 + 1.3 * 0.775) / (1.0 + 0 + 1.3)
              else (1.0 * factor_unbalancedness (unbalancedness example_channel3)
                      + 0.6 * factor_flow 0.25 + 1.3 * 0.775) / (1.0 + 0.6 + 1.3))"
    using fd by auto
  from w have "sl_weighted_change line = 1033 / 1160"
    by (simp add: factor_unbalancedness_def factor_flow_def example_channel3_def)
  with p h1 show ?thesis by blast
qed

subsection \<open>Entering the locked mode\<close>

text \<open>
  Claim C4.  In a run that is not an initial one, a channel with an unbalancedness above
  0.95 and without outward forwardings gets the fee rate \<open>FEE_LOCK_RATE = 0.025\<close>,
  whatever its current fee rate is and whatever the rules of the open mode have assigned
  before.  The run is assumed not to raise.
\<close>

theorem locked_mode_entered:
  assumes "\<not> init self" and "time_interval_days self \<noteq> 0"
    and "channel_fee_policies self (channel_point channel_data) = Some current"
    and "channel_stats_values stats channel_id
           = (flow, fees_sat, total_in, total_out, total_fwd, n, n_out)"
    and "unbalancedness channel_data > 0.95" and "total_out = 0"
  shows "\<exists>policy line. channel_policy self stats channel_id channel_data = Inr (policy, line)
           \<and> fee_rate policy = FEE_LOCK_RATE \<and> FEE_LOCK_RATE = 0.025"
  using assms
  by (simp add: channel_policy_def factor_demand_fee_rate_def factor_demand_base_fee_def
        fee_rate_new_def Let_def THRESHOLD_UB_CLOSE_def FEE_LOCK_RATE_def)

theorem locked_mode_entered_witness:
  "\<not> init example_setter \<and> time_interval_days example_setter \<noteq> 0
   \<and> unbalancedness example_channel1 > 0.95
   \<and> (\<exists>policy line. channel_policy example_setter example_stats 1 example_channel1
                       = Inr (policy, line)
        \<and> fee_rate policy = 0.025)"
proof -
  let ?cur = "\<lparr>base_fee_msat = 100, fee_rate = 0.00005, policy_cltv = 40\<rparr>"
  have h1: "\<not> init example_setter" and h2: "time_interval_days example_setter \<noteq> 0"
    by (simp_all add: example_setter_def)
  have h3: "channel_fee_policies example_setter (channel_point example_channel1) = Some ?cur"
    by (simp add: example_setter_def example_channel1_def)
  have h4: "channel_stats_values example_stats 1 = (0, 0, 0, 0, 0, 0, 0)"
    by (simp add: channel_stats_values_def example_stats_def)
  have h5: "unbalancedness example_channel1 > 0.95"
    by (simp add: example_channel1_def)
  have h6: "(0 :: real) = 0" by simp
  from locked_mode_entered [OF h1 h2 h3 h4 h5 h6]
  have "\<exists>policy line. channel_policy example_setter example_stats 1 example_channel1
                       = Inr (policy, line)
        \<and> fee_rate policy = 0.025"
    by auto
  with h1 h2 h5 show ?thesis by blast
qed

subsection \<open>The base fee\<close>

text \<open>
  Claim C5.  With a minimal base fee that is not negative, a run that is not an initial one
  gives a channel the base fee
  \<open>max min_base_fee_msat \<lfloor>base_fee_msat * factor_base_fee\<rfloor>\<close>, which is at least
  \<open>min_base_fee_msat\<close>; an initial run gives it \<open>min_base_fee_msat\<close> when
  \<open>factor_base_fee < 1\<close> and \<open>max_base_fee_msat\<close> otherwise.  The base fees are integers
  in the model.  The run is assumed not to raise.
\<close>

theorem base_fee_msat_new_value:
  assumes "time_interval_days self \<noteq> 0"
    and "channel_fee_policies self (channel_point channel_data) = Some current"
    and "channel_stats_values stats channel_id
           = (flow, fees_sat, total_in, total_out, total_fwd, n, n_out)"
    and "0 \<le> min_base_fee_msat self"
  shows "\<exists>policy line factor_base_fee.
           channel_policy self stats channel_id channel_data = Inr (policy, line)
         \<and> factor_demand_base_fee self n_out = Inr factor_base_fee
         \<and> (\<not> init self \<longrightarrow>
               base_fee_msat policy
                 = max (min_base_fee_msat self)
                     \<lfloor>of_int (base_fee_msat current) * factor_base_fee\<rfloor>
             \<and> min_base_fee_msat self \<le> base_fee_msat policy)
         \<and> (init self \<longrightarrow>
               base_fee_msat policy
                 = (if factor_base_fee < 1 then min_base_fee_msat self
                    else max_base_fee_msat self))"
proof -
  obtain fd where fd: "factor_demand_fee_rate self total_out = Inr fd"
    using assms(1) by (rule factor_demand_fee_rate_defined)
  obtain fb where fb: "factor_demand_base_fee self n_out = Inr fb"
    using assms(1) by (rule factor_demand_base_fee_defined)
  show ?thesis
    using assms(2,3) fd fb py_int_max [OF assms(4)]
    by (simp add: channel_policy_def base_fee_msat_new_def Let_def)
qed

theorem base_fee_msat_new_value_witness:
  "time_interval_days example_setter \<noteq> 0 \<and> 0 \<le> min_base_fee_msat example_setter
   \<and> \<not> init example_setter
   \<and> (\<exists>policy line. channel_policy example_setter example_stats 2 example_channel2
                       = Inr (policy, line)
        \<and> base_fee_msat policy = 22)"
proof -
  let ?cur = "\<lparr>base_fee_msat = 30, fee_rate = 0, policy_cltv = 40\<rparr>"
  have h1: "time_interval_days example_setter \<noteq> 0"
    and h4: "0 \<le> min_base_fee_msat example_setter" and i: "\<not> init example_setter"
    by (simp_all add: example_setter_def)
  have h2: "channel_fee_policies example_setter (channel_point example_channel2) = Some ?cur"
    by (simp add: example_setter_def example_channel2_def)
  have h3: "channel_stats_values example_stats 2 = (0, 0, 0, 0, 0, 0, 0)"
    by (simp add: channel_stats_values_def example_stats_def)
  have fb: "factor_demand_base_fee example_setter 0 = Inr 0.75"
    by (simp add: factor_demand_base_fee_def example_setter_def)
  from base_fee_msat_new_value [OF h1 h2 h3 h4] obtain policy line f where
    p: "channel_policy example_setter example_stats 2 example_channel2 = Inr (policy, line)"
    and f: "factor_demand_base_fee example_setter 0 = Inr f"
    and b: "\<not> init example_setter \<longrightarrow>
              base_fee_msat policy
                = max (min_base_fee_msat example_setter) \<lfloor>of_int (base_fee_msat ?cur) * f\<rfloor>
            \<and> min_base_fee_msat example_setter \<le> base_fee_msat policy"
    by blast
  from f fb have e: "f = 0.75" by simp
  from b [unfolded e] i have "base_fee_msat policy = 22"
    by (simp add: example_setter_def)
  with p h1 h4 i show ?thesis by blast
qed

subsection \<open>One entry for every channel\<close>

text \<open>
  Claim C6.  When the channel points of the channels are pairwise distinct and each has a
  current policy, \<^verbatim>\<open>new_fee_policy\<close> returns a dictionary whose keys are exactly the
  channel points of the channels, with as many entries as there are channels, and every
  entry has the configured \<^verbatim>\<open>cltv\<close>.  The time interval is assumed not to be zero, as
  \<^verbatim>\<open>set_fees\<close> is meant to be called.
\<close>

theorem new_fee_policy_one_entry_per_channel:
  assumes "distinct (map (channel_point \<circ> snd) channels)"
    and "\<forall>(channel_id, channel_data) \<in> set channels.
           channel_point channel_data \<in> dom (channel_fee_policies self)"
    and "time_interval_days self \<noteq> 0"
  shows "\<exists>policies logged. new_fee_policy self channels stats = Inr (policies, logged)
           \<and> dom policies = (channel_point \<circ> snd) ` set channels
           \<and> card (dom policies) = length channels
           \<and> (\<forall>cp policy. policies cp = Some policy \<longrightarrow> policy_cltv policy = cltv self)"
proof -
  from loop_total [OF assms(3) assms(2), of stats Map.empty "[]"]
  obtain policies logged where
    r: "new_fee_policy self channels stats = Inr (policies, logged)"
    and d: "dom policies = (channel_point \<circ> snd) ` set channels"
    and c: "\<forall>cp p. policies cp = Some p \<longrightarrow> policy_cltv p = cltv self"
    by (auto simp add: new_fee_policy_def)
  have "card (dom policies) = length channels"
    using d distinct_card [OF assms(1)] by (simp add: image_comp)
  with r d c show ?thesis by blast
qed

theorem new_fee_policy_one_entry_per_channel_witness:
  "distinct (map (channel_point \<circ> snd) example_channels)
   \<and> time_interval_days example_setter \<noteq> 0
   \<and> (\<exists>policies logged.
         new_fee_policy example_setter example_channels example_stats = Inr (policies, logged)
       \<and> dom policies = {''cp0'', ''cp1'', ''cp2''}
       \<and> card (dom policies) = 3)"
proof -
  have h1: "distinct (map (channel_point \<circ> snd) example_channels)"
    by (simp add: example_channels_def example_channel1_def example_channel2_def
          example_channel3_def)
  have h2: "\<forall>(channel_id, channel_data) \<in> set example_channels.
              channel_point channel_data \<in> dom (channel_fee_policies example_setter)"
    by (simp add: example_channels_def example_channel1_def example_channel2_def
          example_channel3_def example_setter_def)
  have h3: "time_interval_days example_setter \<noteq> 0"
    by (simp add: example_setter_def)
  have k: "(channel_point \<circ> snd) ` set example_channels = {''cp0'', ''cp1'', ''cp2''}"
    by (simp add: example_channels_def example_channel1_def example_channel2_def
          example_channel3_def)
  have l: "length example_channels = 3"
    by (simp add: example_channels_def)
  from new_fee_policy_one_entry_per_channel [OF h1 h2 h3, of example_stats]
  obtain policies logged where
    r: "new_fee_policy example_setter example_channels example_stats = Inr (policies, logged)"
    and d: "dom policies = (channel_point \<circ> snd) ` set example_channels"
    and c: "card (dom policies) = length example_channels"
    by blast
  show ?thesis
    using h1 h3 r d [unfolded k] c [unfolded l] by simp
qed

subsection \<open>The factors of the unbalancedness and of the flow\<close>

text \<open>
  Claim C7.  For \<open>ub\<close> in \<open>[-1, 1]\<close>, \<open>factor_unbalancedness ub\<close> is \<open>1 + 0.5 * ub\<close>, limited
  from above by 1.5 when it is above 1 and from below by 0.5 otherwise, and lies in
  \<open>[0.5, 1.5]\<close>; the same holds for \<open>factor_flow\<close>.
\<close>

theorem factor_unbalancedness_flow_range:
  assumes "- 1 \<le> x" and "x \<le> 1"
  shows "factor_unbalancedness x
           = (if 1 + 0.5 * x > 1 then min (1 + 0.5 * x) 1.5 else max (1 + 0.5 * x) 0.5)
       \<and> 0.5 \<le> factor_unbalancedness x \<and> factor_unbalancedness x \<le> 1.5
       \<and> factor_flow x
           = (if 1 + 0.5 * x > 1 then min (1 + 0.5 * x) 1.5 else max (1 + 0.5 * x) 0.5)
       \<and> 0.5 \<le> factor_flow x \<and> factor_flow x \<le> 1.5"
  using assms
  by (simp add: factor_unbalancedness_def factor_flow_def Let_def min_def max_def)

theorem factor_unbalancedness_flow_range_witness:
  "- 1 \<le> (0.4 :: real) \<and> (0.4 :: real) \<le> 1
   \<and> factor_unbalancedness 0.4 = 1.2 \<and> factor_flow 0.4 = 1.2"
proof -
  have h1: "- 1 \<le> (0.4 :: real)" and h2: "(0.4 :: real) \<le> 1" by simp_all
  from factor_unbalancedness_flow_range [OF h1 h2] h1 h2 show ?thesis
    by simp
qed

subsection \<open>Leaving the open mode without a forwarding\<close>

text \<open>
  Claim C8.  In a run that is not an initial one, a channel whose current fee rate is 0,
  without outward forwardings and with an unbalancedness in \<open>[-0.5, 0.95]\<close>, gets the
  fee rate \<open>min_fee_rate\<close> when \<open>0 < min_fee_rate \<le> max_fee_rate\<close>: the rounded product is
  0, the clamp lifts it to \<open>min_fee_rate\<close>, and no rule of the threshold modes applies.
  The run is assumed not to raise.
\<close>

theorem open_mode_left_without_forwarding:
  assumes "\<not> init self" and "time_interval_days self \<noteq> 0"
    and "channel_fee_policies self (channel_point channel_data) = Some current"
    and "channel_stats_values stats channel_id
           = (flow, fees_sat, total_in, total_out, total_fwd, n, n_out)"
    and "fee_rate current = 0" and "total_out = 0"
    and "- 0.5 \<le> unbalancedness channel_data" and "unbalancedness channel_data \<le> 0.95"
    and "0 < min_fee_rate self" and "min_fee_rate self \<le> max_fee_rate self"
  shows "\<exists>policy line. channel_policy self stats channel_id channel_data = Inr (policy, line)
           \<and> py_round (fee_rate current * sl_weighted_change line) 6 = 0
           \<and> fee_rate policy = min_fee_rate self"
  using assms
  by (simp add: channel_policy_def factor_demand_fee_rate_def factor_demand_base_fee_def
        fee_rate_new_def Let_def THRESHOLD_UB_CLOSE_def THRESHOLD_UB_OPEN_def FEE_LOCK_RATE_def
        py_round_def round_half_even_def)

theorem open_mode_left_without_forwarding_witness:
  "\<not> init example_setter \<and> time_interval_days example_setter \<noteq> 0
   \<and> 0 < min_fee_rate example_setter
   \<and> min_fee_rate example_setter \<le> max_fee_rate example_setter
   \<and> (\<exists>policy line. channel_policy example_setter example_stats 2 example_channel2
                       = Inr (policy, line)
        \<and> fee_rate policy = 0.000004)"
proof -
  let ?cur = "\<lparr>base_fee_msat = 30, fee_rate = 0, policy_cltv = 40\<rparr>"
  have h1: "\<not> init example_setter" and h2: "time_interval_days example_setter \<noteq> 0"
    and h9: "0 < min_fee_rate example_setter"
    and h10: "min_fee_rate example_setter \<le> max_fee_rate example_setter"
    and m: "min_fee_rate example_setter = 0.000004"
    by (simp_all add: example_setter_def)
  have h3: "channel_fee_policies example_setter (channel_point example_channel2) = Some ?cur"
    by (simp add: example_setter_def example_channel2_def)
  have h4: "channel_stats_values example_stats 2 = (0, 0, 0, 0, 0, 0, 0)"
    by (simp add: channel_stats_values_def example_stats_def)
  have h5: "fee_rate ?cur = 0" and h6: "(0 :: real) = 0"
    and h7: "- 0.5 \<le> unbalancedness example_channel2"
    and h8: "unbalancedness example_channel2 \<le> 0.95"
    by (simp_all add: example_channel2_def)
  from open_mode_left_without_forwarding [OF h1 h2 h3 h4 h5 h6 h7 h8 h9 h10]
  obtain policy line where
    "channel_policy example_setter example_stats 2 example_channel2 = Inr (policy, line)"
    and "fee_rate policy = min_fee_rate example_setter"
    by blast
  then have "\<exists>policy line. channel_policy example_setter example_stats 2 example_channel2
                       = Inr (policy, line)
        \<and> fee_rate policy = 0.000004"
    unfolding m by blast
  with h1 h2 h9 h10 show ?thesis by blast
qed

subsection \<open>The values that are only logged\<close>

text \<open>
  Claim C9.  The dictionary that \<^verbatim>\<open>new_fee_policy\<close> returns, or the exception that it
  raises, does not depend on the capacity of a channel, on \<^verbatim>\<open>fees_total\<close> or on
  \<^verbatim>\<open>number_forwardings\<close>: two runs of the same fee setter, over the same channels with
  the same unbalancedness and channel points and with statistics that agree on the flow
  direction, the two forwarded amounts and the number of outward forwardings, give the
  same dictionary.  Only the lines that are logged differ.
\<close>

theorem new_fee_policy_ignores_logged_values:
  assumes "list_all2 (\<lambda>(i, c) (i', c'). i = i' \<and> unbalancedness c = unbalancedness c'
              \<and> channel_point c = channel_point c') channels channels'"
    and "\<forall>i. rel_option (\<lambda>s s'. flow_direction s = flow_direction s'
            \<and> total_forwarding_in s = total_forwarding_in s'
            \<and> total_forwarding_out s = total_forwarding_out s'
            \<and> number_forwardings_out s = number_forwardings_out s') (stats i) (stats' i)"
  shows "map_sum id fst (new_fee_policy self channels stats)
       = map_sum id fst (new_fee_policy self channels' stats')"
  unfolding new_fee_policy_def by (rule loop_independent [OF assms])

theorem new_fee_policy_ignores_logged_values_witness:
  "example_channels \<noteq> other_channels
   \<and> example_stats 3 \<noteq> other_stats 3
   \<and> map_sum id fst (new_fee_policy example_setter example_channels example_stats)
       = map_sum id fst (new_fee_policy example_setter other_channels other_stats)"
proof -
  have h1: "list_all2 (\<lambda>(i, c) (i', c'). i = i' \<and> unbalancedness c = unbalancedness c'
              \<and> channel_point c = channel_point c') example_channels other_channels"
    by (simp add: example_channels_def other_channels_def)
  have h2: "\<forall>i. rel_option (\<lambda>s s'. flow_direction s = flow_direction s'
            \<and> total_forwarding_in s = total_forwarding_in s'
            \<and> total_forwarding_out s = total_forwarding_out s'
            \<and> number_forwardings_out s = number_forwardings_out s')
            (example_stats i) (other_stats i)"
    by (simp add: example_stats_def other_stats_def)
  have d1: "example_channels \<noteq> other_channels"
    by (simp add: example_channels_def other_channels_def example_channel1_def)
  have d2: "example_stats 3 \<noteq> other_stats 3"
    by (simp add: example_stats_def other_stats_def)
  from new_fee_policy_ignores_logged_values [OF h1 h2, of example_setter] d1 d2
  show ?thesis by blast
qed

subsection \<open>The factors of the demand\<close>

text \<open>
  Claim C10.  With a positive time interval, \<open>factor_demand_fee_rate amount_out\<close> lies in
  \<open>[0.75, 2.0]\<close> for every \<open>amount_out \<ge> 0\<close> and is 0.75 at \<open>amount_out = 0\<close>, and
  \<open>factor_demand_base_fee num_fwd_out\<close> lies in \<open>[0.75, 2.0]\<close> for every
  \<open>num_fwd_out \<ge> 0\<close>: the factors have no lower limit of their own, but the rate is not
  negative.
\<close>

theorem factor_demand_range:
  assumes "0 \<le> amount_out" and "0 \<le> num_fwd_out" and "0 < time_interval_days self"
  shows "(\<exists>c. factor_demand_fee_rate self amount_out = Inr c \<and> 0.75 \<le> c \<and> c \<le> 2.0)
       \<and> factor_demand_fee_rate self 0 = Inr 0.75
       \<and> (\<exists>c. factor_demand_base_fee self num_fwd_out = Inr c \<and> 0.75 \<le> c \<and> c \<le> 2.0)"
  using assms
  by (simp add: factor_demand_fee_rate_def factor_demand_base_fee_def Let_def min_def
        field_simps)

theorem factor_demand_range_witness:
  "(0 :: real) \<le> 50000 \<and> (0 :: int) \<le> 3 \<and> 0 < time_interval_days example_setter
   \<and> factor_demand_fee_rate example_setter 50000 = Inr 0.775
   \<and> factor_demand_base_fee example_setter 3 = Inr 0.9"
proof -
  have h1: "(0 :: real) \<le> 50000" and h2: "(0 :: int) \<le> 3"
    and h3: "0 < time_interval_days example_setter"
    by (simp_all add: example_setter_def)
  from factor_demand_range [OF h1 h2 h3] h1 h2 h3 show ?thesis
    by (simp add: factor_demand_fee_rate_def factor_demand_base_fee_def example_setter_def)
qed

end
